theory Spec2Isabelle
  imports Complex_Main "HOL-Library.Word"
begin

section \<open>JavaScript values\<close>

text \<open>
  A JavaScript string is a sequence of 16-bit code units. The literals of the program
  are ASCII; \<open>str\<close> turns such a literal into its code units.
\<close>

type_synonym jsstring = "16 word list"

definition unit_of_char :: "char \<Rightarrow> 16 word" where
  "unit_of_char c = of_nat (of_char c)"

definition str :: "string \<Rightarrow> jsstring" where
  "str s = map unit_of_char s"

text \<open>
  The server works on values produced by \<^verbatim>\<open>JSON.parse\<close> (request bodies, provider
  payloads) and on the object literals it hands to \<^verbatim>\<open>res.json\<close>. They are modelled by
  one datatype. \<open>JUndefined\<close> is the value of a missing property. Numbers are the
  rationals (every finite double is one). An object is the list of its own properties.
\<close>

datatype json =
    JUndefined
  | JNull
  | JBool bool
  | JNum rat
  | JStr jsstring
  | JArr "json list"
  | JObj "(jsstring \<times> json) list"

text \<open>What \<^verbatim>\<open>throw\<close> carries: the constructor and the message.\<close>

datatype exn = Error jsstring | TypeError jsstring | URIError jsstring | FetchError jsstring

fun message_of :: "exn \<Rightarrow> jsstring" where
  "message_of (Error m) = m"
| "message_of (TypeError m) = m"
| "message_of (URIError m) = m"
| "message_of (FetchError m) = m"

text \<open>JavaScript's ToBoolean, as used by \<^verbatim>\<open>!x\<close>, \<^verbatim>\<open>x || y\<close> and \<^verbatim>\<open>x && y\<close>.\<close>

fun truthy :: "json \<Rightarrow> bool" where
  "truthy JUndefined = False"
| "truthy JNull = False"
| "truthy (JBool b) = b"
| "truthy (JNum n) = (n \<noteq> 0)"
| "truthy (JStr s) = (s \<noteq> [])"
| "truthy (JArr xs) = True"
| "truthy (JObj kvs) = True"

definition js_or :: "json \<Rightarrow> json \<Rightarrow> json" where
  "js_or a b = (if truthy a then a else b)"

definition nullish :: "json \<Rightarrow> bool" where
  "nullish v = (v = JUndefined \<or> v = JNull)"

text \<open>
  Reading the property \<open>k\<close> of a value that is neither \<^verbatim>\<open>null\<close> nor
  \<^verbatim>\<open>undefined\<close>. The program only reads the names \<^verbatim>\<open>city\<close>, \<^verbatim>\<open>error\<close>,
  \<^verbatim>\<open>location\<close> and the like, none of which is a built-in property of a string,
  number, boolean or array, so such values answer \<^verbatim>\<open>undefined\<close>.
\<close>

fun own_prop :: "json \<Rightarrow> jsstring \<Rightarrow> json" where
  "own_prop (JObj kvs) k = (case map_of kvs k of None \<Rightarrow> JUndefined | Some v \<Rightarrow> v)"
| "own_prop v k = JUndefined"

text \<open>Reading a property of any value: \<^verbatim>\<open>null.k\<close> and \<^verbatim>\<open>undefined.k\<close> throw.\<close>

definition get_prop :: "json \<Rightarrow> jsstring \<Rightarrow> exn + json" where
  "get_prop v k =
     (if nullish v
      then Inl (TypeError (str ''Cannot read properties of null or undefined (reading '' @ k @ str '')''))
      else Inr (own_prop v k))"

fun get_path :: "json \<Rightarrow> jsstring list \<Rightarrow> exn + json" where
  "get_path v [] = Inr v"
| "get_path v (k # ks) = (case get_prop v k of Inl e \<Rightarrow> Inl e | Inr w \<Rightarrow> get_path w ks)"

text \<open>Evaluation in order: the first computation that throws aborts the rest.\<close>

fun in_order :: "(exn + 'a) list \<Rightarrow> exn + 'a list" where
  "in_order [] = Inr []"
| "in_order (m # ms) =
     (case m of
        Inl e \<Rightarrow> Inl e
      | Inr v \<Rightarrow> (case in_order ms of Inl e \<Rightarrow> Inl e | Inr vs \<Rightarrow> Inr (v # vs)))"

text \<open>\<^verbatim>\<open>xs.join(sep)\<close> on the strings of the elements.\<close>

fun join_strings :: "jsstring \<Rightarrow> jsstring list \<Rightarrow> jsstring" where
  "join_strings sep [] = []"
| "join_strings sep [s] = s"
| "join_strings sep (s # t # ss) = s @ sep @ join_strings sep (t # ss)"

text \<open>
  JavaScript's ToString, as used by template literals and by \<^verbatim>\<open>join\<close>. How a number prints
  is the runtime's business: it is the parameter \<open>num\<close>. An array prints as its elements
  joined by a comma, \<^verbatim>\<open>null\<close> and \<^verbatim>\<open>undefined\<close> elements as the empty string. An object
  prints through its \<^verbatim>\<open>toString\<close> method: the inherited one answers
  \<^verbatim>\<open>[object Object]\<close>, but an own property of that name hides it, and since a parsed
  value is never a function the conversion then throws.
\<close>

fun js_to_string :: "(rat \<Rightarrow> jsstring) \<Rightarrow> json \<Rightarrow> exn + jsstring" where
  "js_to_string num JUndefined = Inr (str ''undefined'')"
| "js_to_string num JNull = Inr (str ''null'')"
| "js_to_string num (JBool b) = Inr (if b then str ''true'' else str ''false'')"
| "js_to_string num (JNum n) = Inr (num n)"
| "js_to_string num (JStr s) = Inr s"
| "js_to_string num (JArr xs) =
     (case in_order (map (\<lambda>x. if nullish x then Inr [] else js_to_string num x) xs) of
        Inl e \<Rightarrow> Inl e
      | Inr ss \<Rightarrow> Inr (join_strings (str '','') ss))"
| "js_to_string num (JObj kvs) =
     (if map_of kvs (str ''toString'') \<noteq> None
      then Inl (TypeError (str ''Cannot convert object to primitive value''))
      else Inr (str ''[object Object]''))"

definition element_string :: "(rat \<Rightarrow> jsstring) \<Rightarrow> json \<Rightarrow> exn + jsstring" where
  "element_string num x = (if nullish x then Inr [] else js_to_string num x)"

text \<open>
  \<^verbatim>\<open>v.join(sep)\<close>: only an array has the method; on anything else the call throws
  (the property is missing, or is data and not a function).
\<close>

fun js_join :: "(rat \<Rightarrow> jsstring) \<Rightarrow> json \<Rightarrow> jsstring \<Rightarrow> exn + json" where
  "js_join num (JArr xs) sep =
     (case in_order (map (element_string num) xs) of
        Inl e \<Rightarrow> Inl e
      | Inr ss \<Rightarrow> Inr (JStr (join_strings sep ss)))"
| "js_join num v sep = Inl (TypeError (str ''join is not a function''))"

text \<open>A template literal: its parts in order, concatenated.\<close>

definition template :: "(exn + jsstring) list \<Rightarrow> exn + jsstring" where
  "template parts = (case in_order parts of Inl e \<Rightarrow> Inl e | Inr ss \<Rightarrow> Inr (concat ss))"

text \<open>
  \<^verbatim>\<open>console.log(line); rest\<close>: printing has no effect on the answer, but building the
  line may throw.
\<close>

definition logged :: "exn + jsstring \<Rightarrow> exn + 'a \<Rightarrow> exn + 'a" where
  "logged line rest = (case line of Inl e \<Rightarrow> Inl e | Inr printed \<Rightarrow> rest)"

text \<open>\<^verbatim>\<open>v[0]\<close>: the first element of an array, the first code unit of a string,
  the property \<^verbatim>\<open>"0"\<close> of an object; \<^verbatim>\<open>null[0]\<close> and \<^verbatim>\<open>undefined[0]\<close> throw.\<close>

fun index0 :: "json \<Rightarrow> exn + json" where
  "index0 (JArr xs) = Inr (case xs of [] \<Rightarrow> JUndefined | x # rest \<Rightarrow> x)"
| "index0 (JStr s) = Inr (case s of [] \<Rightarrow> JUndefined | c # rest \<Rightarrow> JStr [c])"
| "index0 v = get_prop v (str ''0'')"

text \<open>
  An object literal evaluates its property values in order; the first one that throws
  aborts the literal.
\<close>

fun eval_props :: "(jsstring \<times> (exn + json)) list \<Rightarrow> exn + (jsstring \<times> json) list" where
  "eval_props [] = Inr []"
| "eval_props ((k, m) # rest) =
     (case m of
        Inl e \<Rightarrow> Inl e
      | Inr v \<Rightarrow> (case eval_props rest of Inl e \<Rightarrow> Inl e | Inr kvs \<Rightarrow> Inr ((k, v) # kvs)))"

definition obj_literal :: "(jsstring \<times> (exn + json)) list \<Rightarrow> exn + json" where
  "obj_literal ps = (case eval_props ps of Inl e \<Rightarrow> Inl e | Inr kvs \<Rightarrow> Inr (JObj kvs))"

text \<open>
  \<^verbatim>\<open>s.split(sep)\<close> for a one-unit separator: the pieces between all occurrences,
  empty pieces included; a string without the separator is its own single piece.
\<close>

fun split_on :: "16 word \<Rightarrow> jsstring \<Rightarrow> jsstring list" where
  "split_on sep [] = [[]]"
| "split_on sep (c # cs) =
     (if c = sep then [] # split_on sep cs
      else (case split_on sep cs of [] \<Rightarrow> [[c]] | p # ps \<Rightarrow> (c # p) # ps))"

text \<open>An element of an array of strings by position, \<^verbatim>\<open>undefined\<close> past the end.\<close>

definition elem_at :: "jsstring list \<Rightarrow> nat \<Rightarrow> json" where
  "elem_at xs i = (if i < length xs then JStr (xs ! i) else JUndefined)"

section \<open>Strings: trim and encodeURIComponent\<close>

text \<open>
  \<^verbatim>\<open>String.prototype.trim\<close> strips white space and line terminators from both ends:
  TAB, LF, VT, FF, CR, SPACE, NBSP, U+1680, U+2000 to U+200A, U+2028, U+2029, U+202F,
  U+205F, U+3000 and U+FEFF.
\<close>

definition js_whitespace :: "16 word \<Rightarrow> bool" where
  "js_whitespace c =
     (let n = unat c in
      n \<in> {0x09, 0x0A, 0x0B, 0x0C, 0x0D, 0x20, 0xA0, 0x1680, 0x2028, 0x2029, 0x202F, 0x205F,
            0x3000, 0xFEFF}
      \<or> (0x2000 \<le> n \<and> n \<le> 0x200A))"

definition trim :: "jsstring \<Rightarrow> jsstring" where
  "trim s = rev (dropWhile js_whitespace (rev (dropWhile js_whitespace s)))"

text \<open>
  \<^verbatim>\<open>encodeURIComponent\<close> keeps letters, digits and \<^verbatim>\<open>- _ . ! ~ * ' ( )\<close>. Any other code
  unit is read as a code point, together with the next unit when the two form a surrogate
  pair, and written as the percent-encoded bytes of its UTF-8 form. A surrogate that is
  not part of a pair makes the function throw a URIError.
\<close>

definition uri_unreserved :: "16 word \<Rightarrow> bool" where
  "uri_unreserved c =
     (let n = unat c in
      (65 \<le> n \<and> n \<le> 90) \<or> (97 \<le> n \<and> n \<le> 122) \<or> (48 \<le> n \<and> n \<le> 57)
      \<or> n \<in> {45, 95, 46, 33, 126, 42, 39, 40, 41})"

definition high_surrogate :: "16 word \<Rightarrow> bool" where
  "high_surrogate c = (0xD800 \<le> unat c \<and> unat c \<le> 0xDBFF)"

definition low_surrogate :: "16 word \<Rightarrow> bool" where
  "low_surrogate c = (0xDC00 \<le> unat c \<and> unat c \<le> 0xDFFF)"

definition hex_digit :: "nat \<Rightarrow> 16 word" where
  "hex_digit n = unit_of_char (''0123456789ABCDEF'' ! (n mod 16))"

definition percent_byte :: "nat \<Rightarrow> jsstring" where
  "percent_byte n = [unit_of_char (CHR ''%''), hex_digit (n div 16), hex_digit n]"

definition utf8 :: "nat \<Rightarrow> nat list" where
  "utf8 cp =
     (if cp < 0x80 then [cp]
      else if cp < 0x800 then [0xC0 + cp div 64, 0x80 + cp mod 64]
      else if cp < 0x10000 then
        [0xE0 + cp div 4096, 0x80 + (cp div 64) mod 64, 0x80 + cp mod 64]
      else
        [0xF0 + cp div 262144, 0x80 + (cp div 4096) mod 64, 0x80 + (cp div 64) mod 64,
         0x80 + cp mod 64])"

definition percent_encode :: "nat \<Rightarrow> jsstring" where
  "percent_encode cp = concat (map percent_byte (utf8 cp))"

definition URI_malformed :: exn where
  "URI_malformed = URIError (str ''URI malformed'')"

fun encodeURIComponent :: "jsstring \<Rightarrow> exn + jsstring" where
  "encodeURIComponent [] = Inr []"
| "encodeURIComponent (c # cs) =
     (if uri_unreserved c then
        (case encodeURIComponent cs of Inl e \<Rightarrow> Inl e | Inr r \<Rightarrow> Inr (c # r))
      else if low_surrogate c then Inl URI_malformed
      else if high_surrogate c then
        (case cs of
           [] \<Rightarrow> Inl URI_malformed
         | d # ds \<Rightarrow>
             if low_surrogate d then
               (case encodeURIComponent ds of
                  Inl e \<Rightarrow> Inl e
                | Inr r \<Rightarrow>
                    Inr (percent_encode
                           ((unat c - 0xD800) * 0x400 + (unat d - 0xDC00) + 0x10000) @ r))
             else Inl URI_malformed)
      else
        (case encodeURIComponent cs of
           Inl e \<Rightarrow> Inl e
         | Inr r \<Rightarrow> Inr (percent_encode (unat c) @ r)))"

section \<open>The provider client\<close>

text \<open>
  What the process is given: the access key held in the constant
  \<^verbatim>\<open>WEATHERSTACK_API_KEY\<close>, the outcome of \<^verbatim>\<open>fetch\<close> for each URL, and the runtime's
  printing of numbers. \<^verbatim>\<open>fetch(url)\<close> either rejects or resolves to a response with its
  \<^verbatim>\<open>ok\<close> flag, its \<^verbatim>\<open>statusText\<close> and the outcome of \<^verbatim>\<open>response.json()\<close>, which rejects on a
  body that is not JSON.

  The key is a parameter of the functions that read the constant. The module sets the
  constant to \<open>configured_api_key\<close> of the environment variable, which is never empty, so
  the branch of \<open>fetchWeatherData\<close> for an empty key is a guard that the module's own
  initialisation never triggers.
\<close>

datatype fetch_outcome =
    Rejected exn
  | Response bool jsstring "exn + json"

record env =
  WEATHERSTACK_API_KEY :: jsstring
  fetch :: "jsstring \<Rightarrow> fetch_outcome"
  number_to_string :: "rat \<Rightarrow> jsstring"

definition DEFAULT_API_KEY :: jsstring where
  "DEFAULT_API_KEY = str ''a07119cef2e19d493340c892615a1397''"

definition WEATHERSTACK_API_URL :: jsstring where
  "WEATHERSTACK_API_URL = str ''http://api.weatherstack.com/current''"

text \<open>\<^verbatim>\<open>process.env.WEATHERSTACK_API_KEY || DEFAULT_API_KEY\<close>, on the variable's value if set.\<close>

definition configured_api_key :: "jsstring option \<Rightarrow> jsstring" where
  "configured_api_key var =
     (case var of None \<Rightarrow> DEFAULT_API_KEY | Some k \<Rightarrow> if k \<noteq> [] then k else DEFAULT_API_KEY)"

text \<open>\<^verbatim>\<open>WEATHERSTACK_API_KEY && WEATHERSTACK_API_KEY.length > 0\<close>, read as a condition.\<close>

definition isValidApiKey :: "env \<Rightarrow> bool" where
  "isValidApiKey E = (WEATHERSTACK_API_KEY E \<noteq> [] \<and> length (WEATHERSTACK_API_KEY E) > 0)"

text \<open>\<^verbatim>\<open>city.trim()\<close> on a truthy value: only a string has the method.\<close>

fun city_trim :: "json \<Rightarrow> exn + jsstring" where
  "city_trim (JStr s) = Inr (trim s)"
| "city_trim v = Inl (TypeError (str ''city.trim is not a function''))"

text \<open>The URL of the request; it exists only if the city can be encoded.\<close>

definition api_url :: "env \<Rightarrow> jsstring \<Rightarrow> exn + jsstring" where
  "api_url E normalizedCity =
     (case encodeURIComponent normalizedCity of
        Inl e \<Rightarrow> Inl e
      | Inr query \<Rightarrow>
          Inr (WEATHERSTACK_API_URL @ str ''?access_key='' @ WEATHERSTACK_API_KEY E
                 @ str ''&query='' @ query))"

text \<open>The checks on the parsed provider body, \<^verbatim>\<open>if (data.error) ...\<close>.\<close>

definition check_provider_body :: "env \<Rightarrow> json \<Rightarrow> exn + json" where
  "check_provider_body E data =
     (case get_prop data (str ''error'') of
        Inl e \<Rightarrow> Inl e
      | Inr err \<Rightarrow>
          if truthy err then
            (let code = own_prop err (str ''code'');
                 info = js_to_string (number_to_string E) (own_prop err (str ''info''))
             in if code = JNum 101 \<or> code = JNum 102 \<or> code = JNum 103
                then (case template [Inr (str ''Weatherstack API key error: ''), info] of
                        Inl e \<Rightarrow> Inl e
                      | Inr message \<Rightarrow> Inl (Error message))
                else (case template [Inr (str ''Weatherstack API error: ''), info] of
                        Inl e \<Rightarrow> Inl e
                      | Inr message \<Rightarrow> Inl (Error message)))
          else Inr data)"

text \<open>
  \<^verbatim>\<open>fetchWeatherData(city)\<close>. The result is paired with the list of URLs requested from
  the provider, in order, so that "before any network request" can be stated. The two
  variants of the function differ only in logging and in a catch block that rethrows.
\<close>

definition fetchWeatherData :: "env \<Rightarrow> json \<Rightarrow> (exn + json) \<times> jsstring list" where
  "fetchWeatherData E city =
     (if \<not> truthy city then (Inl (Error (str ''City parameter is required'')), [])
      else if \<not> isValidApiKey E then
        (Inl (Error (str ''No Weatherstack API key provided. Please set WEATHERSTACK_API_KEY environment variable.'')), [])
      else
        (case city_trim city of
           Inl e \<Rightarrow> (Inl e, [])
         | Inr normalizedCity \<Rightarrow>
             (case api_url E normalizedCity of
                Inl e \<Rightarrow> (Inl e, [])
              | Inr apiUrl \<Rightarrow>
                  ((case fetch E apiUrl of
                      Rejected e \<Rightarrow> Inl e
                    | Response ok statusText parsed \<Rightarrow>
                        if \<not> ok then Inl (Error (str ''Weatherstack API error: '' @ statusText))
                        else (case parsed of
                                Inl e \<Rightarrow> Inl e
                              | Inr data \<Rightarrow> check_provider_body E data)),
                   [apiUrl]))))"

text \<open>The failures of the provider client, under the names the specification gives them.\<close>

definition InvalidInput :: exn where
  "InvalidInput = Error (str ''City parameter is required'')"

definition CredentialMissing :: exn where
  "CredentialMissing =
     Error (str ''No Weatherstack API key provided. Please set WEATHERSTACK_API_KEY environment variable.'')"

definition UnavailableResult :: json where
  "UnavailableResult =
     JObj [(str ''status'', JStr (str ''not available'')),
           (str ''message'', JStr (str ''Weather data is currently not available''))]"

text \<open>\<^verbatim>\<open>try { return await fetchWeatherData(city) } catch (error) { return {...} }\<close>\<close>

definition getWeatherForCity :: "env \<Rightarrow> json \<Rightarrow> exn + json" where
  "getWeatherForCity E city =
     (case fst (fetchWeatherData E city) of
        Inr data \<Rightarrow> Inr data
      | Inl error \<Rightarrow> Inr UnavailableResult)"

section \<open>The request handlers\<close>

text \<open>What a handler sends: the HTTP status and the value given to \<^verbatim>\<open>res.json\<close>.\<close>

record response =
  http_status :: nat
  json_body :: json

datatype http_method = GET | POST | OtherMethod jsstring

definition ok_json :: "json \<Rightarrow> response" where
  "ok_json b = \<lparr>http_status = 200, json_body = b\<rparr>"

text \<open>The JSON-RPC error envelope, with \<^verbatim>\<open>id: id || null\<close>.\<close>

definition rejection :: "json \<Rightarrow> int \<Rightarrow> jsstring \<Rightarrow> jsstring \<Rightarrow> response" where
  "rejection rid code msg detail =
     ok_json (JObj [(str ''jsonrpc'', JStr (str ''2.0'')),
                    (str ''id'', js_or rid JNull),
                    (str ''error'', JObj [(str ''code'', JNum (of_int code)),
                                          (str ''message'', JStr msg),
                                          (str ''data'', JStr detail)])])"

definition success :: "json \<Rightarrow> json \<Rightarrow> response" where
  "success rid result =
     ok_json (JObj [(str ''jsonrpc'', JStr (str ''2.0'')), (str ''id'', js_or rid JNull),
                    (str ''result'', result)])"

definition capabilities :: json where
  "capabilities =
     JObj [(str ''protocol'', JObj [(str ''name'', JStr (str ''mcp'')),
                                    (str ''version'', JStr (str ''0.1.0''))]),
           (str ''tools'', JObj [(str ''weather'', JObj
              [(str ''description'', JStr (str ''Get weather information for a location'')),
               (str ''operations'', JObj [(str ''currentWeather'', JObj
                  [(str ''description'', JStr (str ''Get current weather for a city or location'')),
                   (str ''parameters'', JObj [(str ''city'', JObj
                      [(str ''type'', JStr (str ''string'')),
                       (str ''description'',
                          JStr (str ''City name (e.g., '' @ str [CHR 0x22] @ str ''New York''
                                  @ str [CHR 0x22] @ str '')''))])])])])])])]"

text \<open>The result object built from the provider's data; both handlers build the same one.\<close>

definition normalize :: "env \<Rightarrow> json \<Rightarrow> exn + json" where
  "normalize E data =
     obj_literal
       [(str ''city'', get_path data [str ''location'', str ''name'']),
        (str ''country'', get_path data [str ''location'', str ''country'']),
        (str ''region'', get_path data [str ''location'', str ''region'']),
        (str ''localtime'', get_path data [str ''location'', str ''localtime'']),
        (str ''current'', obj_literal
           [(str ''temperature'', get_path data [str ''current'', str ''temperature'']),
            (str ''temperatureUnit'', Inr (JStr (str ''C''))),
            (str ''weather'',
               (case get_path data [str ''current'', str ''weather_descriptions''] of
                  Inl e \<Rightarrow> Inl e
                | Inr ds \<Rightarrow> js_join (number_to_string E) ds (str '', ''))),
            (str ''weatherIcon'',
               (case get_path data [str ''current'', str ''weather_icons''] of
                  Inl e \<Rightarrow> Inl e
                | Inr icons \<Rightarrow> index0 icons)),
            (str ''windSpeed'', get_path data [str ''current'', str ''wind_speed'']),
            (str ''windDirection'', get_path data [str ''current'', str ''wind_dir'']),
            (str ''humidity'', get_path data [str ''current'', str ''humidity'']),
            (str ''feelsLike'', get_path data [str ''current'', str ''feelslike'']),
            (str ''uvIndex'', get_path data [str ''current'', str ''uv_index'']),
            (str ''visibility'', get_path data [str ''current'', str ''visibility'']),
            (str ''precipitation'', get_path data [str ''current'', str ''precip'']),
            (str ''cloudCover'', get_path data [str ''current'', str ''cloudcover'']),
            (str ''pressure'', get_path data [str ''current'', str ''pressure''])])]"

subsection \<open>The JSON-RPC handler, \<^verbatim>\<open>app.all('/mcp')\<close>\<close>

text \<open>\<^verbatim>\<open>const { jsonrpc, id, method, params } = req.body\<close>; it throws on a body that is
  \<^verbatim>\<open>null\<close> or \<^verbatim>\<open>undefined\<close>.\<close>

definition destructure_envelope :: "json \<Rightarrow> exn + (json \<times> json \<times> json \<times> json)" where
  "destructure_envelope body =
     (if nullish body then Inl (TypeError (str ''Cannot destructure property jsonrpc of req.body''))
      else Inr (own_prop body (str ''jsonrpc''), own_prop body (str ''id''),
                own_prop body (str ''method''), own_prop body (str ''params'')))"

definition dot :: "16 word" where
  "dot = unit_of_char (CHR ''.'')"

text \<open>\<^verbatim>\<open>method.includes('.')\<close>: strings and arrays have the method, nothing else has.\<close>

fun method_includes_dot :: "json \<Rightarrow> exn + bool" where
  "method_includes_dot (JStr s) = Inr (dot \<in> set s)"
| "method_includes_dot (JArr xs) = Inr (JStr [dot] \<in> set xs)"
| "method_includes_dot v = Inl (TypeError (str ''method.includes is not a function''))"

text \<open>\<^verbatim>\<open>[tool, operation] = method.split('.')\<close>: only a string has \<^verbatim>\<open>split\<close>.\<close>

fun method_split :: "json \<Rightarrow> exn + (json \<times> json)" where
  "method_split (JStr s) =
     (let parts = split_on dot s in Inr (elem_at parts 0, elem_at parts 1))"
| "method_split v = Inl (TypeError (str ''method.split is not a function''))"

definition resolve_method :: "json \<Rightarrow> exn + (json \<times> json)" where
  "resolve_method method =
     (case method_includes_dot method of
        Inl e \<Rightarrow> Inl e
      | Inr has_dot \<Rightarrow>
          if has_dot then method_split method else Inr (JStr (str ''weather''), method))"

text \<open>The city: \<^verbatim>\<open>params.city\<close> of an object or array, \<^verbatim>\<open>params\<close> itself if a string,
  otherwise left \<^verbatim>\<open>undefined\<close>.\<close>

fun extract_city :: "json \<Rightarrow> json" where
  "extract_city (JObj kvs) = own_prop (JObj kvs) (str ''city'')"
| "extract_city (JArr xs) = own_prop (JArr xs) (str ''city'')"
| "extract_city (JStr s) = JStr s"
| "extract_city v = JUndefined"

text \<open>
  The body of the inner \<^verbatim>\<open>try\<close>: \<open>Inl\<close> is what reaches the inner \<^verbatim>\<open>catch\<close>. The
  answer is built first, then the line that reports success is printed.
\<close>

definition current_weather :: "env \<Rightarrow> json \<Rightarrow> json \<Rightarrow> exn + response" where
  "current_weather E rid params =
     (let city = extract_city params in
      if \<not> truthy city then
        Inr (rejection rid (- 32602) (str ''Invalid params'') (str ''City parameter is required''))
      else
        (case fst (fetchWeatherData E city) of
           Inl e \<Rightarrow> Inl e
         | Inr data \<Rightarrow>
             (case normalize E data of
                Inl e \<Rightarrow> Inl e
              | Inr result \<Rightarrow>
                  logged (template [Inr (str ''Successfully processed weather request for: ''),
                                    js_to_string (number_to_string E) city])
                         (Inr (success rid result)))))"

text \<open>
  The POST branch inside the outer \<^verbatim>\<open>try\<close>: \<open>Inl\<close> is what reaches the outer \<^verbatim>\<open>catch\<close>.
  The lines printed with a value of the request in them are kept, because turning that
  value into a string may throw.
\<close>

definition mcp_post :: "env \<Rightarrow> json \<Rightarrow> exn + response" where
  "mcp_post E body =
     (case destructure_envelope body of
        Inl e \<Rightarrow> Inl e
      | Inr (jsonrpc, rid, method, params) \<Rightarrow>
          if \<not> truthy jsonrpc \<or> jsonrpc \<noteq> JStr (str ''2.0'') then
            logged (template [Inr (str ''Invalid JSON-RPC version: ''),
                              js_to_string (number_to_string E) jsonrpc])
              (Inr (rejection rid (- 32600) (str ''Invalid Request'')
                      (str ''Request must follow JSON-RPC 2.0 specification'')))
          else if \<not> truthy method then
            Inr (rejection rid (- 32600) (str ''Invalid Request'') (str ''Method is required''))
          else
            (case resolve_method method of
               Inl e \<Rightarrow> Inl e
             | Inr (tool, operation) \<Rightarrow>
                 logged (template [Inr (str ''Processing request for tool: ''),
                                   js_to_string (number_to_string E) tool,
                                   Inr (str '', operation: ''),
                                   js_to_string (number_to_string E) operation])
                   (if tool \<noteq> JStr (str ''weather'') then
                      logged (template [Inr (str ''Unsupported tool requested: ''),
                                        js_to_string (number_to_string E) tool])
                        (case template [Inr (str ''Unsupported tool: ''),
                                        js_to_string (number_to_string E) tool,
                                        Inr (str ''. Currently only 'weather' tool is supported.'')] of
                           Inl e \<Rightarrow> Inl e
                         | Inr detail \<Rightarrow>
                             Inr (rejection rid (- 32601) (str ''Method not found'') detail))
                    else if operation = JStr (str ''currentWeather'') then
                      (case current_weather E rid params of
                         Inr r \<Rightarrow> Inr r
                       | Inl error \<Rightarrow> Inr (success rid UnavailableResult))
                    else
                      logged (template [Inr (str ''Unsupported operation requested: ''),
                                        js_to_string (number_to_string E) operation])
                        (case template [Inr (str ''Unsupported operation: ''),
                                        js_to_string (number_to_string E) operation] of
                           Inl e \<Rightarrow> Inl e
                         | Inr detail \<Rightarrow>
                             Inr (rejection rid (- 32601) (str ''Method not found'') detail)))))"

definition internal_error :: response where
  "internal_error =
     \<lparr>http_status = 500,
      json_body = JObj [(str ''jsonrpc'', JStr (str ''2.0'')),
                        (str ''error'', JObj [(str ''code'', JNum (- 32603)),
                                              (str ''message'', JStr (str ''Internal error'')),
                                              (str ''data'', JStr (str ''An unexpected error occurred''))])]\<rparr>"

definition mcp_route :: "env \<Rightarrow> http_method \<Rightarrow> json \<Rightarrow> exn + response" where
  "mcp_route E m body =
     (case m of
        GET \<Rightarrow> Inr (ok_json (JObj [(str ''jsonrpc'', JStr (str ''2.0'')),
                                      (str ''result'', capabilities)]))
      | POST \<Rightarrow> mcp_post E body
      | OtherMethod name \<Rightarrow>
          Inr \<lparr>http_status = 405,
               json_body = JObj [(str ''jsonrpc'', JStr (str ''2.0'')),
                                 (str ''error'', JObj [(str ''code'', JNum (- 32600)),
                                                       (str ''message'', JStr (str ''Invalid Request'')),
                                                       (str ''data'', JStr (str ''HTTP method '' @ name
                                                                         @ str '' not supported''))])]\<rparr>)"

text \<open>The whole handler: the outer \<^verbatim>\<open>catch\<close> answers every exception with status 500.\<close>

definition app_all_mcp :: "env \<Rightarrow> http_method \<Rightarrow> json \<Rightarrow> response" where
  "app_all_mcp E m body =
     (case mcp_route E m body of Inr r \<Rightarrow> r | Inl error \<Rightarrow> internal_error)"

subsection \<open>The plain handler, \<^verbatim>\<open>app.post('/mcp')\<close>\<close>

text \<open>\<^verbatim>\<open>const { tool, operation, parameters } = req.body\<close>\<close>

definition destructure_plain :: "json \<Rightarrow> exn + (json \<times> json \<times> json)" where
  "destructure_plain body =
     (if nullish body then Inl (TypeError (str ''Cannot destructure property tool of req.body''))
      else Inr (own_prop body (str ''tool''), own_prop body (str ''operation''),
                own_prop body (str ''parameters'')))"

text \<open>The body of its inner \<^verbatim>\<open>try\<close>; \<^verbatim>\<open>parameters.city\<close> is read unguarded.\<close>

definition plain_current_weather :: "env \<Rightarrow> json \<Rightarrow> exn + response" where
  "plain_current_weather E parameters =
     (case get_prop parameters (str ''city'') of
        Inl e \<Rightarrow> Inl e
      | Inr city \<Rightarrow>
          (case fst (fetchWeatherData E city) of
             Inl e \<Rightarrow> Inl e
           | Inr data \<Rightarrow>
               (case normalize E data of
                  Inl e \<Rightarrow> Inl e
                | Inr result \<Rightarrow> Inr (ok_json (JObj [(str ''result'', result)])))))"

definition plain_post :: "env \<Rightarrow> json \<Rightarrow> exn + response" where
  "plain_post E body =
     (case destructure_plain body of
        Inl e \<Rightarrow> Inl e
      | Inr (tool, operation, parameters) \<Rightarrow>
          if tool \<noteq> JStr (str ''weather'') then
            (case template [Inr (str ''Unsupported tool: ''),
                            js_to_string (number_to_string E) tool,
                            Inr (str ''. Currently only 'weather' tool is supported.'')] of
               Inl e \<Rightarrow> Inl e
             | Inr message \<Rightarrow>
                 Inr \<lparr>http_status = 400, json_body = JObj [(str ''error'', JStr message)]\<rparr>)
          else if operation = JStr (str ''currentWeather'') then
            (case plain_current_weather E parameters of
               Inr r \<Rightarrow> Inr r
             | Inl error \<Rightarrow> Inr (ok_json (JObj [(str ''result'', UnavailableResult)])))
          else
            (case template [Inr (str ''Unsupported operation: ''),
                            js_to_string (number_to_string E) operation] of
               Inl e \<Rightarrow> Inl e
             | Inr message \<Rightarrow>
                 Inr \<lparr>http_status = 400, json_body = JObj [(str ''error'', JStr message)]\<rparr>))"

definition app_post_mcp :: "env \<Rightarrow> json \<Rightarrow> response" where
  "app_post_mcp E body =
     (case plain_post E body of
        Inr r \<Rightarrow> r
      | Inl error \<Rightarrow>
          \<lparr>http_status = 500,
           json_body = JObj [(str ''error'', JStr (message_of error)),
                             (str ''message'', JStr (str ''Weather data is not available''))]\<rparr>)"

text \<open>
  What the specification says of method resolution, for comparison with
  \<open>resolve_method\<close>: a method with a separator is split at its first occurrence, into what
  precedes it and all that follows it; a method without one is an operation of the tool
  \<^verbatim>\<open>weather\<close>.
\<close>

definition spec_resolve_method :: "jsstring \<Rightarrow> jsstring \<times> jsstring" where
  "spec_resolve_method m =
     (if dot \<in> set m
      then (takeWhile (\<lambda>c. c \<noteq> dot) m, tl (dropWhile (\<lambda>c. c \<noteq> dot) m))
      else (str ''weather'', m))"

text \<open>
  The output schema of the specification, for comparison with \<open>normalize\<close>: the fields
  of the location object \<open>loc\<close> and of the current-conditions object \<open>cur\<close> under their
  stable names, the unit fixed to Celsius, the descriptions \<open>descs\<close> joined with a comma
  and a space, and the first icon.
\<close>

definition spec_NormalizedWeather ::
  "(jsstring \<times> json) list \<Rightarrow> (jsstring \<times> json) list \<Rightarrow> jsstring list \<Rightarrow> json list \<Rightarrow> json" where
  "spec_NormalizedWeather loc cur descs icons =
     JObj [(str ''city'', own_prop (JObj loc) (str ''name'')),
           (str ''country'', own_prop (JObj loc) (str ''country'')),
           (str ''region'', own_prop (JObj loc) (str ''region'')),
           (str ''localtime'', own_prop (JObj loc) (str ''localtime'')),
           (str ''current'', JObj
              [(str ''temperature'', own_prop (JObj cur) (str ''temperature'')),
               (str ''temperatureUnit'', JStr (str ''C'')),
               (str ''weather'', JStr (join_strings (str '', '') descs)),
               (str ''weatherIcon'', (case icons of [] \<Rightarrow> JUndefined | icon # rest \<Rightarrow> icon)),
               (str ''windSpeed'', own_prop (JObj cur) (str ''wind_speed'')),
               (str ''windDirection'', own_prop (JObj cur) (str ''wind_dir'')),
               (str ''humidity'', own_prop (JObj cur) (str ''humidity'')),
               (str ''feelsLike'', own_prop (JObj cur) (str ''feelslike'')),
               (str ''uvIndex'', own_prop (JObj cur) (str ''uv_index'')),
               (str ''visibility'', own_prop (JObj cur) (str ''visibility'')),
               (str ''precipitation'', own_prop (JObj cur) (str ''precip'')),
               (str ''cloudCover'', own_prop (JObj cur) (str ''cloudcover'')),
               (str ''pressure'', own_prop (JObj cur) (str ''pressure''))])]"

text \<open>
  A well-formed provider payload: \<^verbatim>\<open>location\<close> and \<^verbatim>\<open>current\<close> are objects, the
  descriptions are an array of strings and the icons are an array.
\<close>

definition well_formed_payload ::
  "json \<Rightarrow> (jsstring \<times> json) list \<Rightarrow> (jsstring \<times> json) list \<Rightarrow> jsstring list \<Rightarrow> json list \<Rightarrow> bool" where
  "well_formed_payload data loc cur descs icons =
     (own_prop data (str ''location'') = JObj loc \<and> own_prop data (str ''current'') = JObj cur
      \<and> own_prop (JObj cur) (str ''weather_descriptions'') = JArr (map JStr descs)
      \<and> own_prop (JObj cur) (str ''weather_icons'') = JArr icons)"

section \<open>Example environments and requests\<close>

text \<open>No example prints a number, so the examples' number printer is arbitrary.\<close>

definition example_env :: "jsstring \<Rightarrow> fetch_outcome \<Rightarrow> env" where
  "example_env key outcome =
     \<lparr>WEATHERSTACK_API_KEY = key, fetch = (\<lambda>url. outcome), number_to_string = (\<lambda>n. [])\<rparr>"

definition london_location :: "(jsstring \<times> json) list" where
  "london_location =
     [(str ''name'', JStr (str ''London'')), (str ''country'', JStr (str ''United Kingdom'')),
      (str ''region'', JStr (str ''City of London, Greater London'')),
      (str ''localtime'', JStr (str ''2024-05-01 12:00''))]"

definition london_current :: "(jsstring \<times> json) list" where
  "london_current =
     [(str ''temperature'', JNum 15),
      (str ''weather_descriptions'', JArr [JStr (str ''Cloudy''), JStr (str ''Light rain'')]),
      (str ''weather_icons'', JArr [JStr (str ''cloudy.png'')]),
      (str ''wind_speed'', JNum 10), (str ''wind_dir'', JStr (str ''NW'')),
      (str ''humidity'', JNum 80), (str ''feelslike'', JNum 14),
      (str ''uv_index'', JNum 2), (str ''visibility'', JNum 10),
      (str ''precip'', JNum 0), (str ''cloudcover'', JNum 75),
      (str ''pressure'', JNum 1012)]"

definition london_payload :: json where
  "london_payload = JObj [(str ''location'', JObj london_location), (str ''current'', JObj london_current)]"

definition env_down :: env where
  "env_down = example_env (str ''demo'') (Rejected (FetchError (str ''network down'')))"

definition env_london :: env where
  "env_london = example_env (str ''demo'') (Response True (str ''OK'') (Inr london_payload))"

definition env_empty_payload :: env where
  "env_empty_payload = example_env (str ''demo'') (Response True (str ''OK'') (Inr (JObj [])))"

text \<open>A city that is a single high surrogate, which a JSON string can hold as an escape.\<close>

definition lone_surrogate_city :: jsstring where
  "lone_surrogate_city = [0xD800]"

definition example_request :: "json \<Rightarrow> json \<Rightarrow> json" where
  "example_request method params =
     JObj [(str ''jsonrpc'', JStr (str ''2.0'')), (str ''id'', JNum 7), (str ''method'', method), (str ''params'', params)]"

definition example_plain_request :: "json \<Rightarrow> json" where
  "example_plain_request parameters =
     JObj [(str ''tool'', JStr (str ''weather'')), (str ''operation'', JStr (str ''currentWeather'')),
           (str ''parameters'', parameters)]"

section \<open>Auxiliary facts\<close>

lemmas example_defs = example_env_def env_down_def env_london_def env_empty_payload_def
  example_request_def example_plain_request_def london_payload_def
  london_location_def london_current_def lone_surrogate_city_def

lemmas handler_defs = app_all_mcp_def mcp_route_def mcp_post_def current_weather_def
  destructure_envelope_def resolve_method_def success_def rejection_def ok_json_def js_or_def
  UnavailableResult_def internal_error_def app_post_mcp_def plain_post_def
  plain_current_weather_def destructure_plain_def get_prop_def nullish_def elem_at_def Let_def
  template_def logged_def dot_def str_def

lemmas client_defs = fetchWeatherData_def isValidApiKey_def api_url_def WEATHERSTACK_API_URL_def
  check_provider_body_def trim_def js_whitespace_def uri_unreserved_def high_surrogate_def
  low_surrogate_def percent_encode_def utf8_def percent_byte_def hex_digit_def
  URI_malformed_def InvalidInput_def CredentialMissing_def template_def str_def

subsection \<open>Code units of ASCII literals\<close>

lemma unat_unit_of_char [simp]: "unat (unit_of_char c) = of_char c"
proof -
  have "(of_char c :: nat) mod 256 < 256" by (rule mod_less_divisor) simp
  then have "(of_char c :: nat) < 256" by simp
  then have "(of_char c :: nat) < 2 ^ LENGTH(16)" by (simp add: less_trans [where y = 256])
  then show ?thesis unfolding unit_of_char_def by (simp add: unat_of_nat)
qed

lemma unit_of_char_eq_iff [simp]: "unit_of_char a = unit_of_char b \<longleftrightarrow> a = b"
proof
  assume "unit_of_char a = unit_of_char b"
  then have "unat (unit_of_char a) = unat (unit_of_char b)" by simp
  then show "a = b" by simp
qed simp

lemma str_eq_iff [simp]: "str a = str b \<longleftrightarrow> a = b"
  unfolding str_def by (rule inj_map_eq_map) (simp add: inj_on_def)

lemma str_empty_iff [simp]: "str a = [] \<longleftrightarrow> a = []"
  by (simp add: str_def)

lemma str_append [simp]: "str a @ str b = str (a @ b)"
  by (simp add: str_def)

lemma str_append_more [simp]: "str a @ str b @ rest = str (a @ b) @ rest"
  by (simp add: str_def)

subsection \<open>Splitting a method name\<close>

lemma split_on_nonempty: "split_on c m \<noteq> []"
  by (induction m) (auto split: list.splits)

lemma split_on_unfold:
  "split_on c m = takeWhile (\<lambda>x. x \<noteq> c) m #
     (if c \<in> set m then split_on c (tl (dropWhile (\<lambda>x. x \<noteq> c) m)) else [])"
  by (induction m) (auto split: list.splits simp: split_on_nonempty)

lemma split_on_first: "elem_at (split_on c m) 0 = JStr (takeWhile (\<lambda>x. x \<noteq> c) m)"
  by (subst split_on_unfold) (simp add: elem_at_def)

lemma split_on_second:
  "c \<in> set m \<Longrightarrow>
   elem_at (split_on c m) (Suc 0) =
     JStr (takeWhile (\<lambda>x. x \<noteq> c) (tl (dropWhile (\<lambda>x. x \<noteq> c) m)))"
  apply (subst split_on_unfold)
  apply (simp add: elem_at_def split_on_nonempty)
  apply (subst split_on_unfold)
  apply simp
  done

lemma resolve_method_no_dot:
  "dot \<notin> set m \<Longrightarrow> resolve_method (JStr m) = Inr (JStr (str ''weather''), JStr m)"
  by (simp add: resolve_method_def)

lemma resolve_method_dot:
  "dot \<in> set m \<Longrightarrow>
   resolve_method (JStr m) =
     Inr (JStr (takeWhile (\<lambda>c. c \<noteq> dot) m),
          JStr (takeWhile (\<lambda>c. c \<noteq> dot) (tl (dropWhile (\<lambda>c. c \<noteq> dot) m))))"
  by (simp add: resolve_method_def split_on_first split_on_second Let_def)

lemma single_separator_rest:
  "c \<in> set m \<Longrightarrow> count_list m c \<le> 1 \<Longrightarrow> c \<notin> set (tl (dropWhile (\<lambda>x. x \<noteq> c) m))"
  by (induction m) (auto split: if_splits simp: count_list_0_iff)

lemma takeWhile_absent: "c \<notin> set xs \<Longrightarrow> takeWhile (\<lambda>x. x \<noteq> c) xs = xs"
  by (induction xs) auto

lemma resolve_method_single_separator:
  "count_list m (dot) \<le> 1 \<Longrightarrow>
   resolve_method (JStr m) =
     Inr (JStr (fst (spec_resolve_method m)), JStr (snd (spec_resolve_method m)))"
  apply (cases "dot \<in> set m")
   apply (simp add: resolve_method_dot spec_resolve_method_def takeWhile_absent single_separator_rest)
  apply (simp add: resolve_method_no_dot spec_resolve_method_def)
  done

lemma resolve_current_truthy:
  "resolve_method mname = Inr (JStr (str ''weather''), JStr (str ''currentWeather'')) \<Longrightarrow> truthy mname"
  by (cases mname) (auto simp: resolve_method_def split: if_splits)

subsection \<open>Trimming\<close>

lemma dropWhile_all: "\<forall>c\<in>set xs. P c \<Longrightarrow> dropWhile P xs = []"
  by (induction xs) auto

lemma trim_padding:
  assumes "\<forall>c\<in>set pre. js_whitespace c" "\<forall>c\<in>set post. js_whitespace c"
  shows "trim (pre @ s @ post) = trim s"
proof -
  have front: "dropWhile js_whitespace (pre @ s @ post) = dropWhile js_whitespace (s @ post)"
    by (rule dropWhile_append2) (use assms(1) in simp)
  show ?thesis
  proof (cases "\<forall>c\<in>set s. js_whitespace c")
    case True
    then have "\<forall>c\<in>set (s @ post). js_whitespace c"
      using assms(2) by auto
    then have a: "dropWhile js_whitespace (s @ post) = []"
      by (rule dropWhile_all)
    have b: "dropWhile js_whitespace s = []"
      using True by (rule dropWhile_all)
    show ?thesis by (simp only: trim_def front a b)
  next
    case False
    then have "dropWhile js_whitespace (s @ post) = dropWhile js_whitespace s @ post"
      by (auto simp: dropWhile_append1)
    moreover have "dropWhile js_whitespace (rev post @ rev (dropWhile js_whitespace s))
        = dropWhile js_whitespace (rev (dropWhile js_whitespace s))"
      by (rule dropWhile_append2) (use assms(2) in simp)
    ultimately show ?thesis using front by (simp add: trim_def)
  qed
qed

lemma encodeURIComponent_without_surrogates:
  "\<forall>c\<in>set s. \<not> high_surrogate c \<and> \<not> low_surrogate c \<Longrightarrow>
   \<exists>query. encodeURIComponent s = Inr query"
  by (induction s) (auto split: sum.splits)

lemma configured_api_key_nonempty: "configured_api_key var \<noteq> []"
  by (simp add: configured_api_key_def DEFAULT_API_KEY_def split: option.split)

subsection \<open>The handlers on a currentWeather request\<close>

lemma logged_Inr [simp]: "logged (Inr line) rest = rest"
  by (simp add: logged_def)

lemma logged_Inl [simp]: "logged (Inl e) rest = Inl e"
  by (simp add: logged_def)

lemma logged_eq_Inr_iff [simp]:
  "logged line rest = Inr r \<longleftrightarrow> (\<exists>printed. line = Inr printed) \<and> rest = Inr r"
  by (cases line) simp_all

lemma template_two_strings [simp]: "template [Inr a, Inr b] = Inr (a @ b)"
  by (simp add: template_def)

lemma template_three_strings [simp]: "template [Inr a, Inr b, Inr c] = Inr (a @ b @ c)"
  by (simp add: template_def)

lemma template_four_strings [simp]:
  "template [Inr a, Inr b, Inr c, Inr d] = Inr (a @ b @ c @ d)"
  by (simp add: template_def)

lemma fetch_success_city_string:
  "fst (fetchWeatherData E city) = Inr data \<Longrightarrow> \<exists>s. city = JStr s"
  by (cases city) (auto simp: fetchWeatherData_def split: if_splits)

lemma fetch_success_log:
  assumes "fst (fetchWeatherData E city) = Inr data"
  shows "logged (template [Inr a, js_to_string num city]) rest = rest"
proof -
  from assms obtain s where "city = JStr s" by (auto dest: fetch_success_city_string)
  then show ?thesis by simp
qed

lemma mcp_post_current:
  assumes "destructure_envelope body = Inr (JStr (str ''2.0''), rid, mname, params)"
      and "resolve_method mname = Inr (JStr (str ''weather''), JStr (str ''currentWeather''))"
  shows "mcp_post E body =
           (case current_weather E rid params of
              Inr r \<Rightarrow> Inr r
            | Inl error \<Rightarrow> Inr (success rid UnavailableResult))"
  using assms resolve_current_truthy[OF assms(2)] by (simp add: mcp_post_def)

lemma plain_post_current:
  assumes "destructure_plain body = Inr (JStr (str ''weather''), JStr (str ''currentWeather''), parameters)"
  shows "plain_post E body =
           (case plain_current_weather E parameters of
              Inr r \<Rightarrow> Inr r
            | Inl error \<Rightarrow> Inr (ok_json (JObj [(str ''result'', UnavailableResult)])))"
  using assms by (simp add: plain_post_def)

lemma extract_city_falsy_iff:
  "\<not> truthy (extract_city params) \<longleftrightarrow>
     (case params of
        JStr s \<Rightarrow> s = []
      | JObj kvs \<Rightarrow> (case map_of kvs (str ''city'') of None \<Rightarrow> True | Some c \<Rightarrow> \<not> truthy c)
      | _ \<Rightarrow> True)"
  by (cases params) (auto split: option.splits)

lemma current_weather_fault_iff:
  "current_weather E rid params = Inl e \<longleftrightarrow>
     truthy (extract_city params) \<and>
     (fst (fetchWeatherData E (extract_city params)) = Inl e
      \<or> (\<exists>data. fst (fetchWeatherData E (extract_city params)) = Inr data
                 \<and> normalize E data = Inl e))"
  by (auto simp: current_weather_def Let_def fetch_success_log split: sum.splits)

lemma rejection_id: "truthy rid \<Longrightarrow> own_prop (json_body (rejection rid c m d)) (str ''id'') = rid"
  by (simp add: rejection_def ok_json_def js_or_def)

lemma success_id: "truthy rid \<Longrightarrow> own_prop (json_body (success rid res)) (str ''id'') = rid"
  by (simp add: success_def ok_json_def js_or_def)

lemma current_weather_id:
  "current_weather E rid params = Inr r \<Longrightarrow> truthy rid \<Longrightarrow> own_prop (json_body r) (str ''id'') = rid"
  by (auto simp: current_weather_def Let_def rejection_id success_id fetch_success_log
      split: if_splits sum.splits)

subsection \<open>Normalization\<close>

lemma element_string_JStr: "in_order (map (element_string num \<circ> JStr) ds) = Inr ds"
  by (induction ds) (simp_all add: element_string_def nullish_def)

lemma well_formed_not_nullish: "well_formed_payload data loc cur descs icons \<Longrightarrow> \<not> nullish data"
  by (auto simp: well_formed_payload_def nullish_def)

lemma normalize_well_formed:
  assumes "well_formed_payload data loc cur descs icons"
  shows "normalize E data = Inr (spec_NormalizedWeather loc cur descs icons)"
proof -
  have nn: "\<not> nullish data" using assms by (rule well_formed_not_nullish)
  have l: "get_prop data (str ''location'') = Inr (JObj loc)"
    and c: "get_prop data (str ''current'') = Inr (JObj cur)"
    using assms nn by (simp_all add: get_prop_def well_formed_payload_def)
  have d: "own_prop (JObj cur) (str ''weather_descriptions'') = JArr (map JStr descs)"
    and i: "own_prop (JObj cur) (str ''weather_icons'') = JArr icons"
    using assms by (simp_all add: well_formed_payload_def)
  have g: "\<And>kvs k. get_prop (JObj kvs) k = Inr (own_prop (JObj kvs) k)"
    by (simp add: get_prop_def nullish_def)
  show ?thesis
    unfolding normalize_def spec_NormalizedWeather_def obj_literal_def
    by (simp add: l c g d i element_string_JStr del: own_prop.simps split: list.split)
qed

lemma london_well_formed:
  "well_formed_payload london_payload london_location london_current
     [(str ''Cloudy''), (str ''Light rain'')] [JStr (str ''cloudy.png'')]"
  by (simp add: well_formed_payload_def london_payload_def london_current_def)

lemma fetch_london:
  "fetchWeatherData env_london (JStr (str ''London'')) =
     (Inr london_payload, [(str ''http://api.weatherstack.com/current?access_key=demo&query=London'')])"
  by (simp add: example_defs client_defs get_prop_def nullish_def)

lemma fetch_down:
  "fetchWeatherData env_down (JStr (str ''Paris'')) =
     (Inl (FetchError (str ''network down'')),
      [(str ''http://api.weatherstack.com/current?access_key=demo&query=Paris'')])"
  by (simp add: example_defs client_defs)

section \<open>Properties\<close>

text \<open>
  C1. A currentWeather invocation with a well-formed envelope and a non-empty city, whose
  provider client call fails for any reason, is answered with status 200 and a success
  envelope whose result is exactly the object with status "not available" and message
  "Weather data is currently not available". The first part is the JSON-RPC handler, the
  second the plain handler.
\<close>

theorem provider_failure_gives_unavailable:
  "(destructure_envelope body = Inr (JStr (str ''2.0''), rid, mname, params)
     \<and> resolve_method mname = Inr (JStr (str ''weather''), JStr (str ''currentWeather''))
     \<and> truthy (extract_city params)
     \<and> fst (fetchWeatherData E (extract_city params)) = Inl e
    \<longrightarrow> app_all_mcp E POST body =
          \<lparr>http_status = 200,
           json_body = JObj [(str ''jsonrpc'', JStr (str ''2.0'')), (str ''id'', js_or rid JNull),
              (str ''result'', JObj [(str ''status'', JStr (str ''not available'')),
                                 (str ''message'', JStr (str ''Weather data is currently not available''))])]\<rparr>)
   \<and> (destructure_plain body' = Inr (JStr (str ''weather''), JStr (str ''currentWeather''), parameters)
     \<and> get_prop parameters (str ''city'') = Inr city
     \<and> truthy city
     \<and> fst (fetchWeatherData E city) = Inl e'
    \<longrightarrow> app_post_mcp E body' =
          \<lparr>http_status = 200,
           json_body = JObj [(str ''result'', JObj [(str ''status'', JStr (str ''not available'')),
                                 (str ''message'', JStr (str ''Weather data is currently not available''))])]\<rparr>)"
  by (simp add: app_all_mcp_def mcp_route_def mcp_post_current app_post_mcp_def plain_post_current
        current_weather_def plain_current_weather_def success_def ok_json_def UnavailableResult_def)

theorem provider_failure_gives_unavailable_witness:
  "fst (fetchWeatherData env_down (JStr (str ''Paris''))) = Inl (FetchError (str ''network down''))
   \<and> app_all_mcp env_down POST (example_request (JStr (str ''weather.currentWeather'')) (JStr (str ''Paris''))) =
       \<lparr>http_status = 200,
        json_body = JObj [(str ''jsonrpc'', JStr (str ''2.0'')), (str ''id'', JNum 7),
           (str ''result'', JObj [(str ''status'', JStr (str ''not available'')),
                              (str ''message'', JStr (str ''Weather data is currently not available''))])]\<rparr>
   \<and> app_post_mcp env_down (example_plain_request (JObj [(str ''city'', JStr (str ''Paris''))])) =
       \<lparr>http_status = 200,
        json_body = JObj [(str ''result'', JObj [(str ''status'', JStr (str ''not available'')),
                              (str ''message'', JStr (str ''Weather data is currently not available''))])]\<rparr>"
proof -
  have f: "fst (fetchWeatherData env_down (JStr (str ''Paris''))) = Inl (FetchError (str ''network down''))"
    by (simp add: fetch_down)
  have h1: "destructure_envelope (example_request (JStr (str ''weather.currentWeather'')) (JStr (str ''Paris'')))
              = Inr (JStr (str ''2.0''), JNum 7, JStr (str ''weather.currentWeather''), JStr (str ''Paris''))"
    by (simp add: example_request_def destructure_envelope_def nullish_def)
  have h2: "resolve_method (JStr (str ''weather.currentWeather''))
              = Inr (JStr (str ''weather''), JStr (str ''currentWeather''))"
    by (simp add: resolve_method_def elem_at_def str_def dot_def)
  have h3: "destructure_plain (example_plain_request (JObj [(str ''city'', JStr (str ''Paris''))]))
              = Inr (JStr (str ''weather''), JStr (str ''currentWeather''), JObj [(str ''city'', JStr (str ''Paris''))])"
    by (simp add: example_plain_request_def destructure_plain_def nullish_def)
  have h4: "get_prop (JObj [(str ''city'', JStr (str ''Paris''))]) (str ''city'') = Inr (JStr (str ''Paris''))"
    by (simp add: get_prop_def nullish_def)
  show ?thesis
    using provider_failure_gives_unavailable
            [where body = "example_request (JStr (str ''weather.currentWeather'')) (JStr (str ''Paris''))"
               and rid = "JNum 7" and mname = "JStr (str ''weather.currentWeather'')"
               and params = "JStr (str ''Paris'')" and E = env_down and e = "FetchError (str ''network down'')"
               and body' = "example_plain_request (JObj [(str ''city'', JStr (str ''Paris''))])"
               and parameters = "JObj [(str ''city'', JStr (str ''Paris''))]" and city = "JStr (str ''Paris'')"
               and e' = "FetchError (str ''network down'')"]
          f h1 h2 h3 h4
    by (simp add: js_or_def)
qed

text \<open>
  C2. On a well-formed provider payload the normalized output is the fixed schema: city,
  country, region and localtime from the location, and under current the temperature,
  temperatureUnit equal to "C", weather equal to the descriptions joined with a comma and a
  space, weatherIcon equal to the first icon, and windSpeed, windDirection, humidity,
  feelsLike, uvIndex, visibility, precipitation, cloudCover and pressure from their
  provider fields. Both handlers answer a successful currentWeather invocation with this
  object as the result.
\<close>

theorem normalized_output_schema:
  assumes "well_formed_payload data loc cur descs icons"
  shows "normalize E data =
           Inr (JObj [(str ''city'', own_prop (JObj loc) (str ''name'')),
                      (str ''country'', own_prop (JObj loc) (str ''country'')),
                      (str ''region'', own_prop (JObj loc) (str ''region'')),
                      (str ''localtime'', own_prop (JObj loc) (str ''localtime'')),
                      (str ''current'', JObj
                         [(str ''temperature'', own_prop (JObj cur) (str ''temperature'')),
                          (str ''temperatureUnit'', JStr (str ''C'')),
                          (str ''weather'', JStr (join_strings (str '', '') descs)),
                          (str ''weatherIcon'', (case icons of [] \<Rightarrow> JUndefined | icon # rest \<Rightarrow> icon)),
                          (str ''windSpeed'', own_prop (JObj cur) (str ''wind_speed'')),
                          (str ''windDirection'', own_prop (JObj cur) (str ''wind_dir'')),
                          (str ''humidity'', own_prop (JObj cur) (str ''humidity'')),
                          (str ''feelsLike'', own_prop (JObj cur) (str ''feelslike'')),
                          (str ''uvIndex'', own_prop (JObj cur) (str ''uv_index'')),
                          (str ''visibility'', own_prop (JObj cur) (str ''visibility'')),
                          (str ''precipitation'', own_prop (JObj cur) (str ''precip'')),
                          (str ''cloudCover'', own_prop (JObj cur) (str ''cloudcover'')),
                          (str ''pressure'', own_prop (JObj cur) (str ''pressure''))])])
         \<and> (destructure_envelope body = Inr (JStr (str ''2.0''), rid, mname, params)
              \<and> resolve_method mname = Inr (JStr (str ''weather''), JStr (str ''currentWeather''))
              \<and> truthy (extract_city params)
              \<and> fst (fetchWeatherData E (extract_city params)) = Inr data
            \<longrightarrow> app_all_mcp E POST body =
                  \<lparr>http_status = 200,
                   json_body = JObj [(str ''jsonrpc'', JStr (str ''2.0'')), (str ''id'', js_or rid JNull),
                                     (str ''result'', spec_NormalizedWeather loc cur descs icons)]\<rparr>)
         \<and> (destructure_plain body' = Inr (JStr (str ''weather''), JStr (str ''currentWeather''), parameters)
              \<and> get_prop parameters (str ''city'') = Inr city
              \<and> fst (fetchWeatherData E city) = Inr data
            \<longrightarrow> app_post_mcp E body' =
                  \<lparr>http_status = 200,
                   json_body = JObj [(str ''result'', spec_NormalizedWeather loc cur descs icons)]\<rparr>)"
proof -
  have n: "normalize E data = Inr (spec_NormalizedWeather loc cur descs icons)"
    by (rule normalize_well_formed[OF assms])
  show ?thesis
    apply (intro conjI)
    subgoal using n by (simp add: spec_NormalizedWeather_def)
    subgoal using n
      by (auto simp add: app_all_mcp_def mcp_route_def mcp_post_current current_weather_def
            success_def ok_json_def fetch_success_log)
    subgoal using n
      by (simp add: app_post_mcp_def plain_post_current plain_current_weather_def ok_json_def)
    done
qed

theorem normalized_output_schema_witness:
  "well_formed_payload london_payload london_location london_current
     [(str ''Cloudy''), (str ''Light rain'')] [JStr (str ''cloudy.png'')]
   \<and> normalize env_london london_payload =
       Inr (JObj [(str ''city'', JStr (str ''London'')),
                  (str ''country'', JStr (str ''United Kingdom'')),
                  (str ''region'', JStr (str ''City of London, Greater London'')),
                  (str ''localtime'', JStr (str ''2024-05-01 12:00'')),
                  (str ''current'', JObj
                     [(str ''temperature'', JNum 15),
                      (str ''temperatureUnit'', JStr (str ''C'')),
                      (str ''weather'', JStr (str ''Cloudy, Light rain'')),
                      (str ''weatherIcon'', JStr (str ''cloudy.png'')),
                      (str ''windSpeed'', JNum 10),
                      (str ''windDirection'', JStr (str ''NW'')),
                      (str ''humidity'', JNum 80),
                      (str ''feelsLike'', JNum 14),
                      (str ''uvIndex'', JNum 2),
                      (str ''visibility'', JNum 10),
                      (str ''precipitation'', JNum 0),
                      (str ''cloudCover'', JNum 75),
                      (str ''pressure'', JNum 1012)])])
   \<and> app_all_mcp env_london POST (example_request (JStr (str ''currentWeather'')) (JStr (str ''London''))) =
       \<lparr>http_status = 200,
        json_body = JObj [(str ''jsonrpc'', JStr (str ''2.0'')), (str ''id'', JNum 7),
          (str ''result'', spec_NormalizedWeather london_location london_current
                         [(str ''Cloudy''), (str ''Light rain'')] [JStr (str ''cloudy.png'')])]\<rparr>
   \<and> app_post_mcp env_london (example_plain_request (JObj [(str ''city'', JStr (str ''London''))])) =
       \<lparr>http_status = 200,
        json_body = JObj [(str ''result'', spec_NormalizedWeather london_location london_current
                         [(str ''Cloudy''), (str ''Light rain'')] [JStr (str ''cloudy.png'')])]\<rparr>"
proof -
  have h1: "destructure_envelope (example_request (JStr (str ''currentWeather'')) (JStr (str ''London'')))
              = Inr (JStr (str ''2.0''), JNum 7, JStr (str ''currentWeather''), JStr (str ''London''))"
    by (simp add: example_request_def destructure_envelope_def nullish_def)
  have h2: "resolve_method (JStr (str ''currentWeather'')) = Inr (JStr (str ''weather''), JStr (str ''currentWeather''))"
    by (simp add: resolve_method_def str_def dot_def)
  have h3: "destructure_plain (example_plain_request (JObj [(str ''city'', JStr (str ''London''))]))
              = Inr (JStr (str ''weather''), JStr (str ''currentWeather''), JObj [(str ''city'', JStr (str ''London''))])"
    by (simp add: example_plain_request_def destructure_plain_def nullish_def)
  have h4: "get_prop (JObj [(str ''city'', JStr (str ''London''))]) (str ''city'') = Inr (JStr (str ''London''))"
    by (simp add: get_prop_def nullish_def)
  have f: "fst (fetchWeatherData env_london (JStr (str ''London''))) = Inr london_payload"
    by (simp add: fetch_london)
  show ?thesis
    using normalized_output_schema
            [OF london_well_formed,
             where body = "example_request (JStr (str ''currentWeather'')) (JStr (str ''London''))"
               and rid = "JNum 7" and mname = "JStr (str ''currentWeather'')"
               and params = "JStr (str ''London'')" and E = env_london
               and body' = "example_plain_request (JObj [(str ''city'', JStr (str ''London''))])"
               and parameters = "JObj [(str ''city'', JStr (str ''London''))]" and city = "JStr (str ''London'')"]
          h1 h2 h3 h4 f london_well_formed
    by (simp add: js_or_def london_location_def london_current_def)
qed

text \<open>
  C3, as the code has it. fetchWeatherData fails with InvalidInput, before it validates
  the credential and without any network request, for every city that is empty or absent
  as given. The city is trimmed only after both validations: with a valid credential, a
  non-empty string is trimmed and what remains of it is encoded and requested; if nothing
  remains, the request carries an empty query.
\<close>

theorem invalid_input_before_trimming:
  "(\<not> truthy city \<longrightarrow> fetchWeatherData E city = (Inl InvalidInput, []))
   \<and> (isValidApiKey E \<and> s \<noteq> [] \<and> api_url E (trim s) = Inr url \<longrightarrow>
        snd (fetchWeatherData E (JStr s)) = [url])
   \<and> (isValidApiKey E \<and> s \<noteq> [] \<and> trim s = [] \<longrightarrow>
        snd (fetchWeatherData E (JStr s)) =
          [WEATHERSTACK_API_URL @ str ''?access_key='' @ WEATHERSTACK_API_KEY E @ str ''&query=''])"
  by (simp add: fetchWeatherData_def InvalidInput_def api_url_def)

theorem invalid_input_before_trimming_witness:
  "\<not> truthy (JStr []) \<and> fetchWeatherData env_down (JStr []) = (Inl InvalidInput, [])
   \<and> isValidApiKey env_down
   \<and> api_url env_down (trim (str '' New York '')) =
       Inr (str ''http://api.weatherstack.com/current?access_key=demo&query=New%20York'')
   \<and> snd (fetchWeatherData env_down (JStr (str '' New York ''))) =
       [str ''http://api.weatherstack.com/current?access_key=demo&query=New%20York'']
   \<and> trim (str ''  '') = []
   \<and> snd (fetchWeatherData env_down (JStr (str ''  ''))) =
       [str ''http://api.weatherstack.com/current?access_key=demo&query='']"
proof -
  have k: "isValidApiKey env_down" by (simp add: example_defs isValidApiKey_def)
  have u: "api_url env_down (trim (str '' New York '')) =
             Inr (str ''http://api.weatherstack.com/current?access_key=demo&query=New%20York'')"
    by (simp add: example_defs client_defs)
  have t: "trim (str ''  '') = []" by (simp add: client_defs)
  have w: "WEATHERSTACK_API_URL @ str ''?access_key='' @ WEATHERSTACK_API_KEY env_down @ str ''&query=''
             = str ''http://api.weatherstack.com/current?access_key=demo&query=''"
    by (simp add: example_defs client_defs)
  show ?thesis
    using invalid_input_before_trimming [where city = "JStr []" and E = env_down]
      invalid_input_before_trimming
        [where E = env_down and s = "str '' New York ''"
           and url = "str ''http://api.weatherstack.com/current?access_key=demo&query=New%20York''"]
      invalid_input_before_trimming [where E = env_down and s = "str ''  ''"]
      k u t w
    by simp
qed

text \<open>
  C3, as stated, fails: a city of two spaces is empty after trimming, yet fetchWeatherData
  does not fail with InvalidInput; it sends the provider a request with an empty query.
\<close>

theorem blank_city_counterexample:
  "trim (str ''  '') = []
   \<and> fst (fetchWeatherData env_down (JStr (str ''  ''))) \<noteq> Inl InvalidInput
   \<and> snd (fetchWeatherData env_down (JStr (str ''  ''))) =
       [(str ''http://api.weatherstack.com/current?access_key=demo&query='')]"
  by (simp add: example_defs client_defs)

text \<open>
  C4, as the code has it. A method string without a separator resolves to the tool
  "weather" with the whole string as operation. A method string with a separator is split
  at every separator and the first two pieces are the tool and the operation: the tool is
  what precedes the first separator, the operation what lies between the first separator
  and the next one (or the end). This is the split at the first occurrence whenever the
  method has at most one separator. The methods "currentWeather" and
  "weather.currentWeather" resolve to the same pair.
\<close>

theorem method_resolution:
  "(dot \<notin> set m \<longrightarrow> resolve_method (JStr m) = Inr (JStr (str ''weather''), JStr m))
   \<and> (dot \<in> set m \<longrightarrow>
        resolve_method (JStr m) =
          Inr (JStr (takeWhile (\<lambda>c. c \<noteq> dot) m),
               JStr (takeWhile (\<lambda>c. c \<noteq> dot) (tl (dropWhile (\<lambda>c. c \<noteq> dot) m)))))
   \<and> (count_list m (dot) \<le> 1 \<longrightarrow>
        resolve_method (JStr m) =
          Inr (JStr (fst (spec_resolve_method m)), JStr (snd (spec_resolve_method m))))
   \<and> resolve_method (JStr (str ''currentWeather'')) = resolve_method (JStr (str ''weather.currentWeather''))"
proof -
  have "resolve_method (JStr (str ''currentWeather'')) = resolve_method (JStr (str ''weather.currentWeather''))"
    by (simp add: resolve_method_def elem_at_def str_def dot_def)
  then show ?thesis
    using resolve_method_no_dot[of m] resolve_method_dot[of m]
      resolve_method_single_separator[of m]
    by blast
qed

theorem method_resolution_witness:
  "resolve_method (JStr (str ''forecast'')) = Inr (JStr (str ''weather''), JStr (str ''forecast''))
   \<and> count_list (str ''weather.currentWeather'') (dot) \<le> 1
   \<and> spec_resolve_method (str ''weather.currentWeather'') = (str ''weather'', (str ''currentWeather''))
   \<and> resolve_method (JStr (str ''weather.currentWeather'')) = Inr (JStr (str ''weather''), JStr (str ''currentWeather''))
   \<and> resolve_method (JStr (str ''a.b.c'')) = Inr (JStr (str ''a''), JStr (str ''b''))"
  using method_resolution [of "(str ''forecast'')"] method_resolution [of "(str ''weather.currentWeather'')"]
    method_resolution [of "(str ''a.b.c'')"]
  by (simp add: spec_resolve_method_def str_def dot_def)

text \<open>
  C4, as stated, fails: the method "weather.currentWeather.x" split at the first separator
  is the tool "weather" with the operation "currentWeather.x", but the handler resolves it
  to the operation "currentWeather".
\<close>

theorem second_separator_counterexample:
  "dot \<in> set (str ''weather.currentWeather.x'')
   \<and> spec_resolve_method (str ''weather.currentWeather.x'') = (str ''weather'', (str ''currentWeather.x''))
   \<and> resolve_method (JStr (str ''weather.currentWeather.x'')) =
       Inr (JStr (str ''weather''), JStr (str ''currentWeather''))"
  by (simp add: resolve_method_def elem_at_def spec_resolve_method_def str_def dot_def)



text \<open>
  C6. A currentWeather invocation whose parameters are missing, are neither a string nor
  an object, or yield an empty or missing city (from either the plain string or the object
  with a city attribute) is answered with status 200 and the structured rejection with
  code -32602; no exception reaches the outer handler.
\<close>

theorem missing_city_rejected:
  assumes "destructure_envelope body = Inr (JStr (str ''2.0''), rid, mname, params)"
      and "resolve_method mname = Inr (JStr (str ''weather''), JStr (str ''currentWeather''))"
      and "params = JUndefined \<or> params = JNull \<or> (\<exists>b. params = JBool b) \<or> (\<exists>n. params = JNum n)
           \<or> \<not> truthy (extract_city params)"
  shows "mcp_route E POST body = Inr (app_all_mcp E POST body)
         \<and> app_all_mcp E POST body =
             \<lparr>http_status = 200,
              json_body = JObj [(str ''jsonrpc'', JStr (str ''2.0'')), (str ''id'', js_or rid JNull),
                 (str ''error'', JObj [(str ''code'', JNum (- 32602)),
                                   (str ''message'', JStr (str ''Invalid params'')),
                                   (str ''data'', JStr (str ''City parameter is required''))])]\<rparr>"
proof -
  have "\<not> truthy (extract_city params)" using assms(3) by auto
  then show ?thesis
    by (simp add: app_all_mcp_def mcp_route_def mcp_post_current[OF assms(1,2)]
        current_weather_def rejection_def ok_json_def)
qed

theorem missing_city_rejected_witness:
  "\<not> truthy (extract_city (JObj [(str ''city'', JStr [])]))
   \<and> app_all_mcp env_london POST
        (example_request (JStr (str ''currentWeather'')) (JObj [(str ''city'', JStr [])])) =
       \<lparr>http_status = 200,
        json_body = JObj [(str ''jsonrpc'', JStr (str ''2.0'')), (str ''id'', JNum 7),
           (str ''error'', JObj [(str ''code'', JNum (- 32602)),
                             (str ''message'', JStr (str ''Invalid params'')),
                             (str ''data'', JStr (str ''City parameter is required''))])]\<rparr>
   \<and> app_all_mcp env_london POST (example_request (JStr (str ''currentWeather'')) (JNum 3)) =
       \<lparr>http_status = 200,
        json_body = JObj [(str ''jsonrpc'', JStr (str ''2.0'')), (str ''id'', JNum 7),
           (str ''error'', JObj [(str ''code'', JNum (- 32602)),
                             (str ''message'', JStr (str ''Invalid params'')),
                             (str ''data'', JStr (str ''City parameter is required''))])]\<rparr>"
proof -
  have h1: "\<And>p. destructure_envelope (example_request (JStr (str ''currentWeather'')) p)
              = Inr (JStr (str ''2.0''), JNum 7, JStr (str ''currentWeather''), p)"
    by (simp add: example_request_def destructure_envelope_def nullish_def)
  have h2: "resolve_method (JStr (str ''currentWeather'')) = Inr (JStr (str ''weather''), JStr (str ''currentWeather''))"
    by (simp add: resolve_method_def str_def dot_def)
  have c: "\<not> truthy (extract_city (JObj [(str ''city'', JStr [])]))" by simp
  show ?thesis
    using missing_city_rejected [OF h1 h2, of "JObj [(str ''city'', JStr [])]" env_london]
      missing_city_rejected [OF h1 h2, of "JNum 3" env_london] c
    by (simp add: js_or_def)
qed

text \<open>
  C7, as the code has it. No exception leaves the handler, but where it is caught decides
  the answer. An exception raised while the envelope is taken apart or the method is
  resolved reaches the outer handler and becomes the internal-error rejection (status 500,
  code -32603). An exception raised by the provider client or by the normalization of its
  result is caught inside the currentWeather branch and becomes the success envelope with
  the UnavailableResult.
\<close>

theorem faults_are_caught:
  "(destructure_envelope body = Inl e \<longrightarrow> app_all_mcp E POST body = internal_error)
   \<and> (destructure_envelope body = Inr (JStr (str ''2.0''), rid, mname, params)
        \<and> truthy mname \<and> resolve_method mname = Inl e
      \<longrightarrow> app_all_mcp E POST body = internal_error)
   \<and> (destructure_envelope body = Inr (JStr (str ''2.0''), rid, mname, params)
        \<and> resolve_method mname = Inr (JStr (str ''weather''), JStr (str ''currentWeather''))
        \<and> truthy (extract_city params)
        \<and> (fst (fetchWeatherData E (extract_city params)) = Inl e
            \<or> fst (fetchWeatherData E (extract_city params)) = Inr data \<and> normalize E data = Inl e)
      \<longrightarrow> app_all_mcp E POST body =
            \<lparr>http_status = 200,
             json_body = JObj [(str ''jsonrpc'', JStr (str ''2.0'')), (str ''id'', js_or rid JNull),
                               (str ''result'', UnavailableResult)]\<rparr>)"
proof -
  have a: "destructure_envelope body = Inl e \<Longrightarrow> app_all_mcp E POST body = internal_error"
    by (simp add: app_all_mcp_def mcp_route_def mcp_post_def)
  have b: "destructure_envelope body = Inr (JStr (str ''2.0''), rid, mname, params) \<Longrightarrow> truthy mname
           \<Longrightarrow> resolve_method mname = Inl e \<Longrightarrow> app_all_mcp E POST body = internal_error"
    by (simp add: app_all_mcp_def mcp_route_def mcp_post_def)
  have c: "destructure_envelope body = Inr (JStr (str ''2.0''), rid, mname, params)
           \<Longrightarrow> resolve_method mname = Inr (JStr (str ''weather''), JStr (str ''currentWeather''))
           \<Longrightarrow> current_weather E rid params = Inl e
           \<Longrightarrow> app_all_mcp E POST body = success rid UnavailableResult"
    by (simp add: app_all_mcp_def mcp_route_def mcp_post_current)
  have d: "truthy (extract_city params)
           \<Longrightarrow> fst (fetchWeatherData E (extract_city params)) = Inl e
               \<or> fst (fetchWeatherData E (extract_city params)) = Inr data \<and> normalize E data = Inl e
           \<Longrightarrow> current_weather E rid params = Inl e"
    unfolding current_weather_fault_iff by blast
  show ?thesis
    using a b c d unfolding success_def ok_json_def by blast
qed

theorem faults_are_caught_witness:
  "app_all_mcp env_down POST JNull = internal_error
   \<and> resolve_method (JNum 5) = Inl (TypeError (str ''method.includes is not a function''))
   \<and> app_all_mcp env_down POST (example_request (JNum 5) (JStr (str ''London''))) = internal_error
   \<and> fst (fetchWeatherData env_empty_payload (JStr (str ''London''))) = Inr (JObj [])
   \<and> normalize env_empty_payload (JObj []) =
       Inl (TypeError (str ''Cannot read properties of null or undefined (reading name)''))
   \<and> app_all_mcp env_empty_payload POST (example_request (JStr (str ''currentWeather'')) (JStr (str ''London''))) =
       \<lparr>http_status = 200,
        json_body = JObj [(str ''jsonrpc'', JStr (str ''2.0'')), (str ''id'', JNum 7),
                          (str ''result'', UnavailableResult)]\<rparr>"
proof -
  have h0: "destructure_envelope JNull = Inl (TypeError (str ''Cannot destructure property jsonrpc of req.body''))"
    by (simp add: destructure_envelope_def nullish_def)
  have h1: "\<And>m p. destructure_envelope (example_request m p) = Inr (JStr (str ''2.0''), JNum 7, m, p)"
    by (simp add: example_request_def destructure_envelope_def nullish_def)
  have h2: "resolve_method (JNum 5) = Inl (TypeError (str ''method.includes is not a function''))"
    by (simp add: resolve_method_def str_def dot_def)
  have h3: "resolve_method (JStr (str ''currentWeather'')) = Inr (JStr (str ''weather''), JStr (str ''currentWeather''))"
    by (simp add: resolve_method_def str_def dot_def)
  have h4: "fst (fetchWeatherData env_empty_payload (JStr (str ''London''))) = Inr (JObj [])"
    by (simp add: example_defs client_defs get_prop_def nullish_def)
  have h5: "normalize env_empty_payload (JObj []) =
              Inl (TypeError (str ''Cannot read properties of null or undefined (reading name)''))"
    by (simp add: normalize_def obj_literal_def get_prop_def nullish_def)
  show ?thesis
    using faults_are_caught
            [where body = JNull and E = env_down
               and e = "TypeError (str ''Cannot destructure property jsonrpc of req.body'')"]
          faults_are_caught
            [where body = "example_request (JNum 5) (JStr (str ''London''))" and E = env_down
               and rid = "JNum 7" and mname = "JNum 5" and params = "JStr (str ''London'')"
               and e = "TypeError (str ''method.includes is not a function'')"]
          faults_are_caught
            [where body = "example_request (JStr (str ''currentWeather'')) (JStr (str ''London''))"
               and E = env_empty_payload and rid = "JNum 7" and mname = "JStr (str ''currentWeather'')"
               and params = "JStr (str ''London'')" and data = "JObj []"
               and e = "TypeError (str ''Cannot read properties of null or undefined (reading name)'')"]
          h0 h1 h2 h3 h4 h5
    by (simp add: js_or_def)
qed

text \<open>
  C7, as stated, fails: when the provider answers with the empty object, normalizing the
  result raises a TypeError, and the handler answers with status 200 and the
  UnavailableResult in a success envelope, not with the internal-error rejection.
\<close>

theorem normalization_fault_counterexample:
  "fst (fetchWeatherData env_empty_payload (JStr (str ''London''))) = Inr (JObj [])
   \<and> normalize env_empty_payload (JObj []) =
       Inl (TypeError (str ''Cannot read properties of null or undefined (reading name)''))
   \<and> app_all_mcp env_empty_payload POST (example_request (JStr (str ''currentWeather'')) (JStr (str ''London''))) =
       \<lparr>http_status = 200,
        json_body = JObj [(str ''jsonrpc'', JStr (str ''2.0'')), (str ''id'', JNum 7),
           (str ''result'', JObj [(str ''status'', JStr (str ''not available'')),
                              (str ''message'', JStr (str ''Weather data is currently not available''))])]\<rparr>
   \<and> app_all_mcp env_empty_payload POST (example_request (JStr (str ''currentWeather'')) (JStr (str ''London'')))
       \<noteq> internal_error"
  by (simp add: example_defs client_defs handler_defs normalize_def obj_literal_def)

text \<open>
  C8, as the code has it. Every answer of the POST branch other than the internal-error
  rejection, so every invalid-request, method-not-found and invalid-params rejection,
  carries the id of the request when that id is truthy. The internal-error rejection
  carries no id.
\<close>

theorem rejection_echoes_id:
  assumes "mcp_post E body = Inr r"
      and "destructure_envelope body = Inr (jsonrpc, rid, mname, params)"
      and "truthy rid"
  shows "own_prop (json_body r) (str ''id'') = rid \<and> own_prop (json_body internal_error) (str ''id'') = JUndefined"
  using assms
  by (auto simp: mcp_post_def rejection_id success_id current_weather_id internal_error_def
      split: if_splits sum.splits prod.splits)

theorem rejection_echoes_id_witness:
  "mcp_post env_down (example_request (JStr (str ''stocks.quote'')) JNull) =
     Inr \<lparr>http_status = 200,
          json_body = JObj [(str ''jsonrpc'', JStr (str ''2.0'')), (str ''id'', JNum 7),
            (str ''error'', JObj [(str ''code'', JNum (- 32601)), (str ''message'', JStr (str ''Method not found'')),
               (str ''data'', JStr (str ''Unsupported tool: stocks. Currently only 'weather' tool is supported.''))])]\<rparr>
   \<and> truthy (JNum 7)
   \<and> own_prop (json_body
        \<lparr>http_status = 200,
         json_body = JObj [(str ''jsonrpc'', JStr (str ''2.0'')), (str ''id'', JNum 7),
            (str ''error'', JObj [(str ''code'', JNum (- 32601)), (str ''message'', JStr (str ''Method not found'')),
               (str ''data'', JStr (str ''Unsupported tool: stocks. Currently only 'weather' tool is supported.''))])]\<rparr>)
        (str ''id'') = JNum 7"
proof -
  have h1: "destructure_envelope (example_request (JStr (str ''stocks.quote'')) JNull)
              = Inr (JStr (str ''2.0''), JNum 7, JStr (str ''stocks.quote''), JNull)"
    by (simp add: example_request_def destructure_envelope_def nullish_def)
  have h2: "mcp_post env_down (example_request (JStr (str ''stocks.quote'')) JNull) =
     Inr \<lparr>http_status = 200,
          json_body = JObj [(str ''jsonrpc'', JStr (str ''2.0'')), (str ''id'', JNum 7),
            (str ''error'', JObj [(str ''code'', JNum (- 32601)), (str ''message'', JStr (str ''Method not found'')),
               (str ''data'', JStr (str ''Unsupported tool: stocks. Currently only 'weather' tool is supported.''))])]\<rparr>"
    by (simp add: example_defs handler_defs)
  have h3: "truthy (JNum 7)" by simp
  show ?thesis
    using rejection_echoes_id [OF h2 h1 h3] h2 h3 by simp
qed

text \<open>
  C8, as stated, fails: a request with the id 7 and the number 5 as method makes method
  resolution throw, and the internal-error rejection that answers it has no id.
\<close>

theorem internal_error_id_counterexample:
  "own_prop (example_request (JNum 5) JNull) (str ''id'') = JNum 7
   \<and> app_all_mcp env_down POST (example_request (JNum 5) JNull) =
       \<lparr>http_status = 500,
        json_body = JObj [(str ''jsonrpc'', JStr (str ''2.0'')),
                          (str ''error'', JObj [(str ''code'', JNum (- 32603)),
                                            (str ''message'', JStr (str ''Internal error'')),
                                            (str ''data'', JStr (str ''An unexpected error occurred''))])]\<rparr>
   \<and> own_prop (json_body (app_all_mcp env_down POST (example_request (JNum 5) JNull))) (str ''id'')
       \<noteq> JNum 7"
  by (simp add: example_defs handler_defs)

text \<open>
  C9. The library function getWeatherForCity succeeds for every city and every provider
  outcome: it never returns an exception, it returns the fetched data when
  fetchWeatherData succeeds, and the UnavailableResult sentinel, with status
  "not available" and message "Weather data is currently not available", when
  fetchWeatherData fails in any way.
\<close>

theorem getWeatherForCity_always_succeeds:
  "(\<exists>v. getWeatherForCity E city = Inr v)
   \<and> (\<forall>data. fst (fetchWeatherData E city) = Inr data \<longrightarrow> getWeatherForCity E city = Inr data)
   \<and> (\<forall>e. fst (fetchWeatherData E city) = Inl e \<longrightarrow>
          getWeatherForCity E city =
            Inr (JObj [(str ''status'', JStr (str ''not available'')),
                       (str ''message'', JStr (str ''Weather data is currently not available''))]))"
  by (simp add: getWeatherForCity_def UnavailableResult_def split: sum.split)

theorem getWeatherForCity_always_succeeds_witness:
  "getWeatherForCity env_london (JStr (str ''London'')) = Inr london_payload
   \<and> getWeatherForCity env_down (JStr (str ''Paris'')) =
       Inr (JObj [(str ''status'', JStr (str ''not available'')),
                  (str ''message'', JStr (str ''Weather data is currently not available''))])
   \<and> getWeatherForCity env_down (JNum 5) =
       Inr (JObj [(str ''status'', JStr (str ''not available'')),
                  (str ''message'', JStr (str ''Weather data is currently not available''))])"
proof -
  have t: "fst (fetchWeatherData env_down (JNum 5)) = Inl (TypeError (str ''city.trim is not a function''))"
    by (simp add: example_defs client_defs)
  show ?thesis
    using getWeatherForCity_always_succeeds [of env_london "JStr (str ''London'')"]
      getWeatherForCity_always_succeeds [of env_down "JStr (str ''Paris'')"]
      getWeatherForCity_always_succeeds [of env_down "JNum 5"]
      t
    by (simp add: fetch_london fetch_down)
qed

text \<open>
  C10, as the code has it. For every non-empty city string, fetchWeatherData behaves the
  same on the city and on the city with white space added in front and behind: the same
  result and the same outbound request. With a valid credential, whenever the trimmed
  city can be URL-encoded the single request is the one whose URL carries that encoding
  as the query; when it cannot, because it holds a surrogate outside a pair, the function
  fails with the URIError and requests nothing.
\<close>

theorem request_invariant_under_padding:
  assumes "s \<noteq> []"
      and "\<forall>c\<in>set pre. js_whitespace c"
      and "\<forall>c\<in>set post. js_whitespace c"
  shows "fetchWeatherData E (JStr (pre @ s @ post)) = fetchWeatherData E (JStr s)
         \<and> (isValidApiKey E \<and> encodeURIComponent (trim s) = Inr query \<longrightarrow>
              snd (fetchWeatherData E (JStr (pre @ s @ post))) =
                [str ''http://api.weatherstack.com/current?access_key='' @ WEATHERSTACK_API_KEY E
                   @ str ''&query='' @ query])
         \<and> (isValidApiKey E \<and> encodeURIComponent (trim s) = Inl e \<longrightarrow>
              fetchWeatherData E (JStr (pre @ s @ post)) = (Inl e, []))"
  using assms
  by (simp add: fetchWeatherData_def trim_padding api_url_def WEATHERSTACK_API_URL_def)

theorem request_invariant_under_padding_witness:
  "list_all js_whitespace (str ''  '') \<and> list_all js_whitespace [0x09, 0x2028]
   \<and> isValidApiKey env_down
   \<and> encodeURIComponent (trim (str ''New York'')) = Inr (str ''New%20York'')
   \<and> snd (fetchWeatherData env_down (JStr (str ''  '' @ str ''New York'' @ [0x09, 0x2028]))) =
       [str ''http://api.weatherstack.com/current?access_key=demo&query=New%20York'']
   \<and> snd (fetchWeatherData env_down (JStr (str ''New York''))) =
       [str ''http://api.weatherstack.com/current?access_key=demo&query=New%20York'']
   \<and> encodeURIComponent (trim lone_surrogate_city) = Inl URI_malformed
   \<and> fetchWeatherData env_down (JStr (str ''  '' @ lone_surrogate_city @ [0x09, 0x2028])) =
       (Inl URI_malformed, [])"
proof -
  have s: "str ''New York'' \<noteq> []" by simp
  have s': "lone_surrogate_city \<noteq> []" by (simp add: lone_surrogate_city_def)
  have a: "\<forall>c\<in>set (str ''  ''). js_whitespace c" by (simp add: js_whitespace_def str_def)
  have b: "\<forall>c\<in>set [0x09, 0x2028 :: 16 word]. js_whitespace c" by (simp add: js_whitespace_def)
  have k: "isValidApiKey env_down" by (simp add: example_defs isValidApiKey_def)
  have u: "encodeURIComponent (trim (str ''New York'')) = Inr (str ''New%20York'')"
    by (simp add: client_defs)
  have v: "encodeURIComponent (trim lone_surrogate_city) = Inl URI_malformed"
    by (simp add: client_defs lone_surrogate_city_def)
  have url: "[str ''http://api.weatherstack.com/current?access_key='' @ WEATHERSTACK_API_KEY env_down
                @ str ''&query='' @ str ''New%20York'']
             = [str ''http://api.weatherstack.com/current?access_key=demo&query=New%20York'']"
    by (simp add: example_defs str_def)
  note r = request_invariant_under_padding [OF s a b, of env_down "str ''New%20York''"]
  note r' = request_invariant_under_padding [OF s' a b, of env_down _ URI_malformed]
  from r have e: "fetchWeatherData env_down (JStr (str ''  '' @ str ''New York'' @ [0x09, 0x2028]))
                    = fetchWeatherData env_down (JStr (str ''New York''))"
    by (rule conjunct1)
  from r k u have "snd (fetchWeatherData env_down (JStr (str ''  '' @ str ''New York'' @ [0x09, 0x2028]))) =
       [str ''http://api.weatherstack.com/current?access_key='' @ WEATHERSTACK_API_KEY env_down
          @ str ''&query='' @ str ''New%20York'']"
    by blast
  then have q: "snd (fetchWeatherData env_down (JStr (str ''  '' @ str ''New York'' @ [0x09, 0x2028]))) =
       [str ''http://api.weatherstack.com/current?access_key=demo&query=New%20York'']"
    by (simp only: url)
  from q have q': "snd (fetchWeatherData env_down (JStr (str ''New York''))) =
       [str ''http://api.weatherstack.com/current?access_key=demo&query=New%20York'']"
    by (simp only: e)
  from r' k v have f: "fetchWeatherData env_down (JStr (str ''  '' @ lone_surrogate_city @ [0x09, 0x2028])) =
       (Inl URI_malformed, [])"
    by blast
  show ?thesis
    using a b k u v q q' f by (simp add: list_all_iff)
qed

text \<open>
  C10, as stated, fails: a city that is a single high surrogate is a non-empty string,
  but with a valid credential and a provider that would answer, fetchWeatherData builds
  no URL for it: encoding the city throws the URIError and nothing is requested.
\<close>

theorem lone_surrogate_counterexample:
  "lone_surrogate_city \<noteq> []
   \<and> trim lone_surrogate_city = lone_surrogate_city
   \<and> isValidApiKey env_london
   \<and> fetchWeatherData env_london (JStr lone_surrogate_city) =
       (Inl (URIError (str ''URI malformed'')), [])"
  by (simp add: example_defs client_defs)

end
